theory Spec2Isabelle
  imports Main
begin

section \<open>Shared vocabulary\<close>

text \<open>
  Go's \<open>error\<close> values are built with \<open>errors.New(msg)\<close> in the handlers; errors that
  come back from collaborators are values of the same type.  A \<open>nil\<close> error is \<open>None\<close>
  of \<open>error option\<close>.
\<close>

datatype error = errors_New string

text \<open>\<open>time.Time\<close> is only stored and compared; an instant is a natural number.\<close>

type_synonym Time = nat

section \<open>Go's strings\<close>

text \<open>
  A Go \<open>string\<close> is a sequence of bytes, as \<open>string\<close> is here.
  \<open>strings.HasPrefix(s, prefix)\<close> is \<open>len(s) >= len(prefix) && s[:len(prefix)] == prefix\<close>.
\<close>

definition HasPrefix :: "string \<Rightarrow> string \<Rightarrow> bool" where
  "HasPrefix s prefix \<longleftrightarrow> length s \<ge> length prefix \<and> take (length prefix) s = prefix"

text \<open>\<open>filepath.IsAbs\<close> on Unix: the path begins with a slash.\<close>

definition IsAbs :: "string \<Rightarrow> bool" where
  "IsAbs path \<longleftrightarrow> HasPrefix path ''/''"

text \<open>
  The conversion \<open>rune(n)\<close> of an \<open>int\<close> keeps the low 32 bits, read as a signed number.
\<close>

definition rune :: "int \<Rightarrow> int" where
  "rune n = (n + 2 ^ 31) mod 2 ^ 32 - 2 ^ 31"

text \<open>
  The conversion \<open>string(r)\<close> of a rune is the UTF-8 encoding of the code point \<open>r\<close>, and
  of U+FFFD (the bytes EF BF BD) when \<open>r\<close> is not a valid code point.
\<close>

definition string_of_rune :: "int \<Rightarrow> string" where
  "string_of_rune r =
     (if r < 0 \<or> r > 0x10FFFF \<or> (0xD800 \<le> r \<and> r \<le> 0xDFFF)
      then [char_of (0xEF :: int), char_of (0xBF :: int), char_of (0xBD :: int)]
      else if r < 0x80 then [char_of r]
      else if r < 0x800 then [char_of (0xC0 + r div 64), char_of (0x80 + r mod 64)]
      else if r < 0x10000
      then [char_of (0xE0 + r div 4096), char_of (0x80 + (r div 64) mod 64),
            char_of (0x80 + r mod 64)]
      else [char_of (0xF0 + r div 262144), char_of (0x80 + (r div 4096) mod 64),
            char_of (0x80 + (r div 64) mod 64), char_of (0x80 + r mod 64)])"

text \<open>
  The decimal representation of a number, which is what the specification says of the age
  passed to the store (and what \<open>strconv.Itoa\<close> gives).  It is not used by the code.
\<close>

fun decimal :: "nat \<Rightarrow> string" where
  "decimal n = (if n < 10 then [char_of (48 + n)]
                else decimal (n div 10) @ [char_of (48 + n mod 10)])"

declare decimal.simps [simp del]

section \<open>Package \<open>util\<close>\<close>

text \<open>
  Modelled from the spec: the case half of \<open>util.NormalizePath\<close> (see below), the small
  letter of an ASCII capital.
\<close>

definition toLower :: "char \<Rightarrow> char" where
  "toLower c = (let n = (of_char c :: nat) in if 65 \<le> n \<and> n \<le> 90 then char_of (n + 32) else c)"

text \<open>
  Modelled from the spec: \<open>util.NormalizePath\<close> is called by the store and the handlers
  but is not among the sources at hand.  The specification says that destination paths
  are stored "normalized (case/separator-canonicalized)": every backslash becomes a slash
  and every ASCII capital its small letter.
\<close>

definition NormalizePath :: "string \<Rightarrow> string" where
  "NormalizePath path = map (\<lambda>c. if c = CHR 0x5C then CHR ''/'' else toLower c) path"

section \<open>Package \<open>db\<close>: the pre-match table\<close>

text \<open>
  A row of \<open>models.TorrentPreMatch\<close>: the two fields the code reads and writes, and the
  primary key and creation time that the store keeps with every row.
\<close>

record TorrentPreMatch =
  ID :: nat
  Destination :: string
  MediaId :: int
  CreatedAt :: Time

text \<open>
  The table is the list of its rows in the order of their keys.  \<open>First\<close> under a
  \<open>Where\<close> is the first row that satisfies it, \<open>Save\<close> rewrites the row that has the key,
  \<open>Create\<close> appends a row under a new key.  The store itself is taken not to fail in
  \<open>SaveTorrentPreMatch\<close>.
\<close>

definition next_ID :: "TorrentPreMatch list \<Rightarrow> nat" where
  "next_ID rows = Suc (fold max (map TorrentPreMatch.ID rows) 0)"

definition SaveTorrentPreMatch ::
  "TorrentPreMatch list \<Rightarrow> Time \<Rightarrow> string \<Rightarrow> int \<Rightarrow> TorrentPreMatch list" where
  "SaveTorrentPreMatch rows now destination mediaId =
     (let destination = NormalizePath destination
      in case find (\<lambda>r. TorrentPreMatch.Destination r = destination) rows of
           Some existing \<Rightarrow>
             map (\<lambda>r. if TorrentPreMatch.ID r = TorrentPreMatch.ID existing
                       then existing\<lparr>TorrentPreMatch.MediaId := mediaId\<rparr> else r) rows
         | None \<Rightarrow>
             rows @ [\<lparr>TorrentPreMatch.ID = next_ID rows,
                      TorrentPreMatch.Destination = destination,
                      TorrentPreMatch.MediaId = mediaId,
                      TorrentPreMatch.CreatedAt = now\<rparr>])"

text \<open>
  \<open>GetTorrentPreMatchForFilePath\<close>.  The first argument is what
  \<open>db.gormdb.Find(&preMatches)\<close> gave: the rows and the error.
\<close>

fun GetTorrentPreMatchForFilePath_loop :: "string \<Rightarrow> TorrentPreMatch list \<Rightarrow> int \<times> bool" where
  "GetTorrentPreMatchForFilePath_loop filePath [] = (0, False)"
| "GetTorrentPreMatchForFilePath_loop filePath (pm # pms) =
     (let normalizedDest = NormalizePath (TorrentPreMatch.Destination pm)
      in if HasPrefix filePath normalizedDest then (TorrentPreMatch.MediaId pm, True)
         else GetTorrentPreMatchForFilePath_loop filePath pms)"

definition GetTorrentPreMatchForFilePath ::
  "TorrentPreMatch list \<times> error option \<Rightarrow> string \<Rightarrow> int \<times> bool" where
  "GetTorrentPreMatchForFilePath found filePath =
     (let filePath = NormalizePath filePath
      in case snd found of
           Some err \<Rightarrow> (0, False)
         | None \<Rightarrow> GetTorrentPreMatchForFilePath_loop filePath (fst found))"

text \<open>
  What the specification asks of the match: the destination is a prefix of the path that
  ends at a segment boundary.
\<close>

definition segment_prefix :: "string \<Rightarrow> string \<Rightarrow> bool" where
  "segment_prefix d p \<longleftrightarrow>
     HasPrefix p d \<and>
     (length p = length d \<or> p ! length d = CHR ''/'' \<or> (d \<noteq> [] \<and> last d = CHR ''/''))"

text \<open>
  \<open>CleanupOldTorrentPreMatches\<close>: the value bound to the placeholder of
  \<open>created_at < datetime('now', ?)\<close>, which is
  \<open>"-" + string(rune(days)) + " days"\<close>.
\<close>

definition CleanupOldTorrentPreMatches :: "int \<Rightarrow> string" where
  "CleanupOldTorrentPreMatches days = ''-'' @ string_of_rune (rune days) @ '' days''"

section \<open>Package \<open>session\<close>\<close>

subsection \<open>\<open>user.User\<close> as far as the session package uses it\<close>

text \<open>
  The fields \<open>Viewer\<close>, \<open>Token\<close> and \<open>IsSimulated\<close> are the ones that \<open>ToUser\<close> sets.
  The viewer profile (\<open>anilist.GetViewer_Viewer\<close>) is only passed along, so its type is
  the parameter \<open>'v\<close>; a \<open>nil\<close> pointer is \<open>None\<close>.
\<close>

record 'v User =
  Viewer :: "'v option"
  Token :: string
  IsSimulated :: bool

subsection \<open>\<open>Session\<close>\<close>

record 'v Session =
  ID :: string
  Token :: string
  Username :: string
  Viewer :: "'v option"
  CreatedAt :: Time
  LastAccessed :: Time
  IsSimulated :: bool

text \<open>
  \<open>ToUser\<close>.  \<open>user.NewSimulatedUser()\<close> lives in package \<open>user\<close>, outside the sources at
  hand: its result is the parameter \<open>NewSimulatedUser\<close>.
\<close>

definition ToUser :: "'v User \<Rightarrow> 'v Session \<Rightarrow> 'v User" where
  "ToUser NewSimulatedUser s =
     (if Session.IsSimulated s \<or> Session.Token s = []
      then NewSimulatedUser
      else \<lparr>User.Viewer = Session.Viewer s, User.Token = ''HIDDEN'', User.IsSimulated = False\<rparr>)"

definition GetToken :: "'v Session \<Rightarrow> string" where
  "GetToken s = (if Session.IsSimulated s then [] else Session.Token s)"

subsection \<open>\<open>Store\<close>\<close>

text \<open>
  \<open>sessions\<close> maps a session id to a pointer; the pointed-to objects live in \<open>heap\<close>,
  a pointer being an index into it, and a new object is appended, so its pointer is fresh.
  \<open>clients\<close> holds interface values, which can be \<open>nil\<close> (\<open>None\<close>).  The client type
  \<open>'c\<close> and its constructor \<open>anilist.NewAnilistClient(token, cacheDir)\<close> are outside the
  sources at hand: the constructor is the parameter \<open>NewAnilistClient\<close> of the functions
  that call it.  The lock \<open>mu\<close> is not modelled: every function below runs alone.
\<close>

record ('v, 'c) Store =
  sessions :: "string \<rightharpoonup> nat"
  heap :: "'v Session list"
  clients :: "string \<rightharpoonup> 'c option"
  cacheDir :: string

text \<open>Every pointer in the table points to an object.\<close>

definition wf_Store :: "('v, 'c) Store \<Rightarrow> bool" where
  "wf_Store s \<longleftrightarrow> (\<forall>p \<in> ran (sessions s). p < length (heap s))"

text \<open>
  \<open>GetSession\<close>.  \<open>time.Now()\<close> is read twice when the session is created (\<open>now1\<close> for
  \<open>CreatedAt\<close>, \<open>now2\<close> for \<open>LastAccessed\<close>) and once on a hit (\<open>now1\<close>).  The result is
  the pointer returned and the store afterwards.
\<close>

definition GetSession ::
  "('v, 'c) Store \<Rightarrow> string \<Rightarrow> Time \<Rightarrow> Time \<Rightarrow> nat \<times> ('v, 'c) Store" where
  "GetSession s sessionID now1 now2 =
     (case sessions s sessionID of
        None \<Rightarrow>
          (let session = \<lparr>ID = sessionID, Token = [], Username = [], Viewer = None,
                           CreatedAt = now1, LastAccessed = now2, IsSimulated = True\<rparr>;
               p = length (heap s)
           in (p, s\<lparr>sessions := (sessions s)(sessionID \<mapsto> p), heap := heap s @ [session]\<rparr>))
      | Some p \<Rightarrow>
          (p, s\<lparr>heap := (heap s)[p := (heap s ! p)\<lparr>LastAccessed := now1\<rparr>]\<rparr>))"

text \<open>
  \<open>GetAnilistClient\<close>: the cached client, or a new one built from the token of the
  session (the empty token when there is no session or it is simulated), which is cached.
\<close>

definition GetAnilistClient ::
  "(string \<Rightarrow> string \<Rightarrow> 'c option) \<Rightarrow> ('v, 'c) Store \<Rightarrow> string
     \<Rightarrow> 'c option \<times> ('v, 'c) Store" where
  "GetAnilistClient NewAnilistClient s sessionID =
     (case (case clients s sessionID of None \<Rightarrow> None | Some c \<Rightarrow> c) of
        Some client \<Rightarrow> (Some client, s)
      | None \<Rightarrow>
          (let token = (case sessions s sessionID of
                          None \<Rightarrow> []
                        | Some p \<Rightarrow> if \<not> Session.IsSimulated (heap s ! p)
                                    then Session.Token (heap s ! p) else []);
               client = NewAnilistClient token (cacheDir s)
           in (client, s\<lparr>clients := (clients s)(sessionID \<mapsto> client)\<rparr>)))"

section \<open>Package \<open>core\<close>: the session-aware progress update\<close>

datatype MediaListStatus = MediaListStatusCurrent | MediaListStatusCompleted

text \<open>
  What \<open>UpdateEntryProgressForSession\<close> ends up calling: the process-wide platform
  (\<open>a.AnilistPlatformRef.Get().UpdateEntryProgress(ctx, mediaID, progress, totalEpisodes)\<close>)
  or the client of the session
  (\<open>client.UpdateMediaListEntryProgress(ctx, &mediaID, &progress, &status)\<close>).  The error
  returned is the error of that call.  \<open>totalEpisodes\<close> is a \<open>*int\<close>: \<open>None\<close> is \<open>nil\<close>.
  The integers are only compared and copied.
\<close>

datatype 'c progress_call =
    UpdateEntryProgress int int "int option"
  | UpdateMediaListEntryProgress 'c int int MediaListStatus

record ('v, 'c) App =
  SessionStore :: "('v, 'c) Store option"

definition UpdateEntryProgressForSession ::
  "(string \<Rightarrow> string \<Rightarrow> 'c option) \<Rightarrow> ('v, 'c) App \<Rightarrow> Time \<Rightarrow> Time
     \<Rightarrow> string \<Rightarrow> int \<Rightarrow> int \<Rightarrow> int option \<Rightarrow> 'c progress_call \<times> ('v, 'c) App" where
  "UpdateEntryProgressForSession NewAnilistClient a now1 now2 sessionID mediaID progress totalEpisodes =
     (case SessionStore a of
        None \<Rightarrow> (UpdateEntryProgress mediaID progress totalEpisodes, a)
      | Some store \<Rightarrow>
          if sessionID = [] then (UpdateEntryProgress mediaID progress totalEpisodes, a)
          else
            (let (p, store1) = GetSession store sessionID now1 now2;
                 sess = heap store1 ! p
             in if Session.IsSimulated sess \<or> Session.Token sess = []
                then (UpdateEntryProgress mediaID progress totalEpisodes,
                      a\<lparr>SessionStore := Some store1\<rparr>)
                else
                  (let (client, store2) = GetAnilistClient NewAnilistClient store1 sessionID;
                       a2 = a\<lparr>SessionStore := Some store2\<rparr>
                   in case client of
                        None \<Rightarrow> (UpdateEntryProgress mediaID progress totalEpisodes, a2)
                      | Some c \<Rightarrow>
                          (let realTotalCount =
                                 (case totalEpisodes of
                                    None \<Rightarrow> 0
                                  | Some t \<Rightarrow> if t > 0 then t else 0);
                               status = (if realTotalCount > 0 \<and> progress \<ge> realTotalCount
                                         then MediaListStatusCompleted
                                         else MediaListStatusCurrent);
                               progress' = (if realTotalCount > 0 \<and> progress > realTotalCount
                                            then realTotalCount else progress)
                           in (UpdateMediaListEntryProgress c mediaID progress' status, a2)))))"

section \<open>Package \<open>handlers\<close>: the download-client routes\<close>

subsection \<open>Data\<close>

text \<open>
  \<open>hibiketorrent.AnimeTorrent\<close>, \<open>anilist.BaseAnime\<close> and \<open>torrent_client.Torrent\<close> with
  the fields the handlers read.  The progress of a torrent is a \<open>float64\<close> that is only
  copied: its type is the parameter \<open>'f\<close>.  A \<open>TorrentStatus\<close> is a string.
\<close>

record AnimeTorrent =
  Provider :: string
  InfoHash :: string

record BaseAnime =
  ID :: int

record 'f Torrent =
  ContentPath :: string
  Status :: string
  Progress :: 'f

record 'f MediaDownloadStatus =
  MediaId :: int
  Status :: string
  Progress :: 'f

text \<open>
  The request body of a handler is taken as bound (\<open>c.Bind(&b)\<close> has succeeded).
  How a handler ends: \<open>h.RespondWithError(c, err)\<close>, \<open>h.RespondWithData(c, data)\<close>, a bare
  \<open>return err\<close>, or a run-time panic (a \<open>nil\<close> dereference, an index out of range).
\<close>

datatype 'a response = RespondWithError error | RespondWithData 'a | ReturnErr error | Panic

text \<open>
  The calls a handler makes to its collaborators (the torrent client repository, the
  torrent repository and its provider extensions, the metadata platform, the database, the
  file system), in the order it makes them.  The
  arguments of \<open>Call_SmartSelect\<close> are the fields \<open>Torrent\<close>, \<open>EpisodeNumbers\<close>, \<open>Media\<close>,
  \<open>Destination\<close> and \<open>ShouldAddTorrent\<close> of \<open>SmartSelectParams\<close>; those of
  \<open>Call_DeselectAndDownload\<close> are \<open>Torrent\<close>, \<open>FileIndices\<close>, \<open>Destination\<close> and
  \<open>ShouldAddTorrent\<close>.  \<open>Call_go_AddMediaToCollection\<close> is the goroutine started at the
  end of a download request.  Logging is left out.
\<close>

text \<open>
  A \<open>*anilist.CompleteAnime\<close> is only passed on to \<open>SmartSelect\<close>.  The handler has it
  from \<open>GetAnimeWithRelations(ctx, b.Media.ID)\<close> or, when that fails, from
  \<open>b.Media.ToCompleteAnime()\<close>; both are outside the sources at hand, and a value is
  written as the call it comes from.
\<close>

datatype CompleteAnime = GetAnimeWithRelations int | ToCompleteAnime BaseAnime

datatype call =
    Call_GetActiveTorrents
  | Call_Start
  | Call_MkdirTemp
  | Call_RemoveAll string
  | Call_GetAnimeProviderExtension string
  | Call_GetTorrentMagnetLink AnimeTorrent
  | Call_TorrentExists string
  | Call_AddMagnets "string list" string
  | Call_GetFiles string
  | Call_RemoveTorrents "string list"
  | Call_GetAnimeWithRelations int
  | Call_SmartSelect AnimeTorrent "int list" CompleteAnime string bool
  | Call_DeselectAndDownload AnimeTorrent "int list" string bool
  | Call_SaveTorrentPreMatch string int
  | Call_GetAllTorrentPreMatches
  | Call_go_AddMediaToCollection "BaseAnime option"

subsection \<open>\<open>HandleGetActiveTorrentList\<close>\<close>

text \<open>
  The answers of the collaborators: of the first \<open>GetActiveTorrents()\<close> (result and
  error), of \<open>Start()\<close>, and of the second \<open>GetActiveTorrents()\<close>.
\<close>

record 'f list_env =
  l_GetActiveTorrents1 :: "'f Torrent list \<times> error option"
  l_Start :: bool
  l_GetActiveTorrents2 :: "'f Torrent list \<times> error option"

definition HandleGetActiveTorrentList ::
  "'f list_env \<Rightarrow> 'f Torrent list response \<times> call list" where
  "HandleGetActiveTorrentList env =
     (case l_GetActiveTorrents1 env of
        (res, None) \<Rightarrow> (RespondWithData res, [Call_GetActiveTorrents])
      | (res, Some err) \<Rightarrow>
          if \<not> l_Start env
          then (RespondWithError
                  (errors_New ''could not start torrent client, verify your settings''),
                [Call_GetActiveTorrents, Call_Start])
          else (case l_GetActiveTorrents2 env of
                  (res, err) \<Rightarrow>
                    (RespondWithData res,
                     [Call_GetActiveTorrents, Call_Start, Call_GetActiveTorrents])))"

subsection \<open>\<open>HandleTorrentClientGetFiles\<close>\<close>

record files_body =
  Torrent :: "AnimeTorrent option"
  Provider :: string

text \<open>
  The answers of the collaborators: \<open>os.MkdirTemp\<close> (directory and error), whether the
  provider extension is found, \<open>GetTorrentMagnetLink\<close> (magnet and error),
  \<open>TorrentExists\<close>, the error of \<open>AddMagnets\<close>, \<open>GetFiles\<close> (file names and error).  The
  error of \<open>RemoveTorrents\<close> is discarded by the handler.
\<close>

record files_env =
  f_MkdirTemp :: "string \<times> error option"
  f_GetAnimeProviderExtension :: "string \<Rightarrow> bool"
  f_GetTorrentMagnetLink :: "AnimeTorrent \<Rightarrow> string \<times> error option"
  f_TorrentExists :: "string \<Rightarrow> bool"
  f_AddMagnets :: "string list \<Rightarrow> string \<Rightarrow> error option"
  f_GetFiles :: "string \<Rightarrow> string list \<times> error option"

text \<open>The part of the handler that runs under \<open>defer os.RemoveAll(tempDir)\<close>.\<close>

definition GetFiles_deferred ::
  "files_env \<Rightarrow> files_body \<Rightarrow> AnimeTorrent \<Rightarrow> string \<Rightarrow> string list response \<times> call list" where
  "GetFiles_deferred env b torrent tempDir =
     (if \<not> f_GetAnimeProviderExtension env (files_body.Provider b)
      then (RespondWithError (errors_New ''provider extension not found for torrent''),
            [Call_GetAnimeProviderExtension (files_body.Provider b)])
      else
        (let log1 = [Call_GetAnimeProviderExtension (files_body.Provider b),
                     Call_GetTorrentMagnetLink torrent]
         in case f_GetTorrentMagnetLink env torrent of
              (magnet, Some err) \<Rightarrow> (RespondWithError err, log1)
            | (magnet, None) \<Rightarrow>
                (let exists = f_TorrentExists env (InfoHash torrent);
                     log2 = log1 @ [Call_TorrentExists (InfoHash torrent)];
                     added = (if \<not> exists then f_AddMagnets env [magnet] tempDir else None);
                     log3 = log2 @ (if \<not> exists then [Call_AddMagnets [magnet] tempDir] else [])
                 in case added of
                      Some err \<Rightarrow> (ReturnErr err, log3)
                    | None \<Rightarrow>
                        (let log4 = log3 @ [Call_GetFiles (InfoHash torrent)]
                         in case f_GetFiles env (InfoHash torrent) of
                              (files, Some err) \<Rightarrow> (RespondWithError err, log4)
                            | (files, None) \<Rightarrow>
                                (RespondWithData files,
                                 log4 @ (if \<not> exists
                                         then [Call_RemoveTorrents [InfoHash torrent]]
                                         else []))))))"

definition HandleTorrentClientGetFiles ::
  "files_env \<Rightarrow> files_body \<Rightarrow> string list response \<times> call list" where
  "HandleTorrentClientGetFiles env b =
     (case files_body.Torrent b of
        None \<Rightarrow> (RespondWithError (errors_New ''missing arguments''), [])
      | Some torrent \<Rightarrow>
          if InfoHash torrent = [] then (RespondWithError (errors_New ''missing arguments''), [])
          else (case f_MkdirTemp env of
                  (tempDir, Some err) \<Rightarrow> (RespondWithError err, [Call_MkdirTemp])
                | (tempDir, None) \<Rightarrow>
                    (let (resp, log) = GetFiles_deferred env b torrent tempDir
                     in (resp, [Call_MkdirTemp] @ log @ [Call_RemoveAll tempDir]))))"

subsection \<open>\<open>HandleTorrentClientDownload\<close>\<close>

record download_body =
  Torrents :: "AnimeTorrent list"
  Destination :: string
  SmartSelect_Enabled :: bool
  SmartSelect_MissingEpisodeNumbers :: "int list"
  Deselect_Enabled :: bool
  Deselect_Indices :: "int list"
  Media :: "BaseAnime option"

text \<open>
  The answers of the collaborators: \<open>Start()\<close>, the errors of \<open>GetAnimeWithRelations\<close>,
  \<open>SmartSelect\<close> and \<open>DeselectAndDownload\<close>, whether a provider extension is found,
  \<open>GetTorrentMagnetLink\<close> (magnet and error), the error of \<open>AddMagnets\<close>.  The error of
  \<open>Database.SaveTorrentPreMatch\<close> decides only what is logged.
\<close>

record download_env =
  d_Start :: bool
  d_GetAnimeWithRelations :: "int \<Rightarrow> error option"
  d_SmartSelect :: "error option"
  d_DeselectAndDownload :: "error option"
  d_GetAnimeProviderExtension :: "string \<Rightarrow> bool"
  d_GetTorrentMagnetLink :: "AnimeTorrent \<Rightarrow> string \<times> error option"
  d_AddMagnets :: "string list \<Rightarrow> string \<Rightarrow> error option"

text \<open>
  Each part of the handler gives the response with which the handler returns there, if it
  does (\<open>Some\<close>), and the calls made.

  The block \<open>if b.SmartSelect.Enabled { ... }\<close>; \<open>&b.Torrents[0]\<close> panics on an empty
  slice.
\<close>

definition Download_smart_select ::
  "download_env \<Rightarrow> download_body \<Rightarrow> CompleteAnime \<Rightarrow> bool response option \<times> call list" where
  "Download_smart_select env b completeAnime =
     (if SmartSelect_Enabled b
      then if length (Torrents b) > 1
           then (Some (RespondWithError
                         (errors_New ''smart select is not supported for multiple torrents'')), [])
           else (case Torrents b of
                   [] \<Rightarrow> (Some Panic, [])
                 | t0 # _ \<Rightarrow>
                     (let log = [Call_SmartSelect t0 (SmartSelect_MissingEpisodeNumbers b)
                                   completeAnime (download_body.Destination b) True]
                      in case d_SmartSelect env of
                           Some err \<Rightarrow> (Some (RespondWithError err), log)
                         | None \<Rightarrow> (None, log)))
      else (None, []))"

text \<open>The loop \<open>for _, t := range b.Torrents\<close> that collects the magnets.\<close>

fun Download_magnets ::
  "download_env \<Rightarrow> AnimeTorrent list \<Rightarrow> string list
     \<Rightarrow> (bool response + string list) \<times> call list" where
  "Download_magnets env [] magnets = (Inr magnets, [])"
| "Download_magnets env (t # ts) magnets =
     (if \<not> d_GetAnimeProviderExtension env (AnimeTorrent.Provider t)
      then (Inl (RespondWithError (errors_New ''provider extension not found for torrent'')),
            [Call_GetAnimeProviderExtension (AnimeTorrent.Provider t)])
      else (case d_GetTorrentMagnetLink env t of
              (magnet, Some err) \<Rightarrow>
                (Inl (RespondWithError err),
                 [Call_GetAnimeProviderExtension (AnimeTorrent.Provider t),
                  Call_GetTorrentMagnetLink t])
            | (magnet, None) \<Rightarrow>
                (let (r, log) = Download_magnets env ts (magnets @ [magnet])
                 in (r, [Call_GetAnimeProviderExtension (AnimeTorrent.Provider t),
                         Call_GetTorrentMagnetLink t] @ log))))"

text \<open>The statement \<open>if b.Deselect.Enabled { ... } else { ... }\<close> that follows.\<close>

definition Download_deselect_or_add ::
  "download_env \<Rightarrow> download_body \<Rightarrow> bool response option \<times> call list" where
  "Download_deselect_or_add env b =
     (if Deselect_Enabled b
      then (case Torrents b of
              [] \<Rightarrow> (Some Panic, [])
            | t0 # _ \<Rightarrow>
                (let log = [Call_DeselectAndDownload t0 (Deselect_Indices b)
                              (download_body.Destination b) True]
                 in case d_DeselectAndDownload env of
                      Some err \<Rightarrow> (Some (RespondWithError err), log)
                    | None \<Rightarrow> (None, log)))
      else (case Download_magnets env (Torrents b) [] of
              (Inl resp, log) \<Rightarrow> (Some resp, log)
            | (Inr magnets, log) \<Rightarrow>
                (let log' = log @ [Call_AddMagnets magnets (download_body.Destination b)]
                 in case d_AddMagnets env magnets (download_body.Destination b) of
                      Some err \<Rightarrow> (Some (RespondWithError err), log')
                    | None \<Rightarrow> (None, log'))))"

text \<open>
  The pre-match is saved when the catalog id is positive; the error of the save is only
  logged.  Then the goroutine is started and the handler answers \<open>true\<close>.
\<close>

definition Download_finish :: "download_body \<Rightarrow> BaseAnime \<Rightarrow> call list" where
  "Download_finish b media =
     (if BaseAnime.ID media > 0
      then [Call_SaveTorrentPreMatch (download_body.Destination b) (BaseAnime.ID media)]
      else [])
     @ [Call_go_AddMediaToCollection (Media b)]"

definition HandleTorrentClientDownload ::
  "download_env \<Rightarrow> download_body \<Rightarrow> bool response \<times> call list" where
  "HandleTorrentClientDownload env b =
     (if download_body.Destination b = []
      then (RespondWithError (errors_New ''destination not found''), [])
      else if \<not> IsAbs (download_body.Destination b)
      then (RespondWithError (errors_New ''destination path must be absolute''), [])
      else if \<not> d_Start env
      then (RespondWithError
              (errors_New
                 ''could not contact torrent client, verify your settings or make sure it's running''),
            [Call_Start])
      else (case Media b of
              None \<Rightarrow> (Panic, [Call_Start])
            | Some media \<Rightarrow>
                (let log1 = [Call_Start, Call_GetAnimeWithRelations (BaseAnime.ID media)];
                     completeAnime =
                       (case d_GetAnimeWithRelations env (BaseAnime.ID media) of
                          None \<Rightarrow> GetAnimeWithRelations (BaseAnime.ID media)
                        | Some err \<Rightarrow> ToCompleteAnime media)
                 in case Download_smart_select env b completeAnime of
                      (Some resp, log2) \<Rightarrow> (resp, log1 @ log2)
                    | (None, log2) \<Rightarrow>
                        (case Download_deselect_or_add env b of
                           (Some resp, log3) \<Rightarrow> (resp, log1 @ log2 @ log3)
                         | (None, log3) \<Rightarrow>
                             (RespondWithData True,
                              log1 @ log2 @ log3 @ Download_finish b media)))))"

subsection \<open>\<open>HandleGetMediaDownloadingStatus\<close>\<close>


text \<open>
  The inner loop \<open>for destPath, mediaId := range destToMediaId\<close>.  Go leaves the order of
  a \<open>range\<close> over a map open, and it may change from one loop to the next: the order in
  which this loop visits the keys is the argument \<open>keys\<close>.  The loop ends at the first
  key that is a prefix of the content path; the result is the catalog id found there.
\<close>

fun range_destToMediaId :: "(string \<rightharpoonup> int) \<Rightarrow> string \<Rightarrow> string list \<Rightarrow> int option" where
  "range_destToMediaId destToMediaId contentPath [] = None"
| "range_destToMediaId destToMediaId contentPath (destPath # keys) =
     (case destToMediaId destPath of
        None \<Rightarrow> range_destToMediaId destToMediaId contentPath keys
      | Some mediaId \<Rightarrow>
          if length contentPath \<ge> length destPath
             \<and> take (length destPath) contentPath = destPath
          then Some mediaId
          else range_destToMediaId destToMediaId contentPath keys)"

text \<open>An order in which a \<open>range\<close> can visit the map: every key, once.\<close>

definition range_order :: "(string \<rightharpoonup> int) \<Rightarrow> string list \<Rightarrow> bool" where
  "range_order m keys \<longleftrightarrow> distinct keys \<and> set keys = dom m"










section \<open>Concrete inputs\<close>

text \<open>
  Stores, requests and collaborators on which the theorems below are exercised.  The
  viewer profile is a string here, a client is the pair of the token and the cache
  directory it was built from.
\<close>

definition store0 :: "(string, string \<times> string) Store" where
  "store0 = \<lparr>sessions = Map.empty, heap = [], clients = Map.empty, cacheDir = ''/cache''\<rparr>"

definition alice :: "string Session" where
  "alice = \<lparr>Session.ID = ''s1'', Session.Token = ''secret-A'', Username = ''alice'',
            Session.Viewer = Some ''alice-profile'', Session.CreatedAt = 1, LastAccessed = 2,
            Session.IsSimulated = False\<rparr>"

definition guest :: "string User" where
  "guest = \<lparr>User.Viewer = None, User.Token = ''SIMULATED'', User.IsSimulated = True\<rparr>"

definition store1 :: "(string, string \<times> string) Store" where
  "store1 = \<lparr>sessions = [''s1'' \<mapsto> 0], heap = [alice], clients = Map.empty,
             cacheDir = ''/cache''\<rparr>"

definition app1 :: "(string, string \<times> string) App" where
  "app1 = \<lparr>SessionStore = Some store1\<rparr>"

definition mkClient :: "string \<Rightarrow> string \<Rightarrow> (string \<times> string) option" where
  "mkClient token dir = Some (token, dir)"

definition torrent_a :: AnimeTorrent where
  "torrent_a = \<lparr>AnimeTorrent.Provider = ''nyaa'', InfoHash = ''aaaa''\<rparr>"

definition torrent_b :: AnimeTorrent where
  "torrent_b = \<lparr>AnimeTorrent.Provider = ''nyaa'', InfoHash = ''bbbb''\<rparr>"

definition refused :: error where
  "refused = errors_New ''connection refused''"

text \<open>A daemon that takes the probe torrent and then fails to list its files.\<close>

definition files_env_listing_fails :: files_env where
  "files_env_listing_fails =
     \<lparr>f_MkdirTemp = (''/tmp/torrent-1'', None),
      f_GetAnimeProviderExtension = (\<lambda>provider. True),
      f_GetTorrentMagnetLink = (\<lambda>t. (''magnet:?xt=urn:btih:'' @ InfoHash t, None)),
      f_TorrentExists = (\<lambda>hash. False),
      f_AddMagnets = (\<lambda>magnets dir. None),
      f_GetFiles = (\<lambda>hash. ([], Some refused))\<rparr>"

text \<open>Collaborators that all succeed.\<close>

definition download_env_ok :: download_env where
  "download_env_ok =
     \<lparr>d_Start = True,
      d_GetAnimeWithRelations = (\<lambda>mediaId. None),
      d_SmartSelect = None,
      d_DeselectAndDownload = None,
      d_GetAnimeProviderExtension = (\<lambda>provider. True),
      d_GetTorrentMagnetLink = (\<lambda>t. (''magnet:?xt=urn:btih:'' @ InfoHash t, None)),
      d_AddMagnets = (\<lambda>magnets dir. None)\<rparr>"

definition smart_select_body :: download_body where
  "smart_select_body =
     \<lparr>Torrents = [torrent_a], download_body.Destination = ''/lib/Show'',
      SmartSelect_Enabled = True, SmartSelect_MissingEpisodeNumbers = [1, 2],
      Deselect_Enabled = False, Deselect_Indices = [],
      Media = Some \<lparr>BaseAnime.ID = 21\<rparr>\<rparr>"

definition smart_select_batch_body :: download_body where
  "smart_select_batch_body = smart_select_body\<lparr>Torrents := [torrent_a, torrent_b]\<rparr>"








section \<open>The session registry\<close>

lemma touch_keeps_Token:
  "Session.Token (xs[p := (xs ! p)\<lparr>LastAccessed := t\<rparr>] ! p) = Session.Token (xs ! p)"
  by (cases "p < length xs") (simp_all add: list_update_beyond)

lemma touch_keeps_IsSimulated:
  "Session.IsSimulated (xs[p := (xs ! p)\<lparr>LastAccessed := t\<rparr>] ! p)
     = Session.IsSimulated (xs ! p)"
  by (cases "p < length xs") (simp_all add: list_update_beyond)

lemma GetSession_hit:
  "sessions s sessionID = Some p \<Longrightarrow>
   GetSession s sessionID now1 now2
     = (p, s\<lparr>heap := (heap s)[p := (heap s ! p)\<lparr>LastAccessed := now1\<rparr>]\<rparr>)"
  by (simp add: GetSession_def)

lemma GetSession_wf_Store:
  "wf_Store s \<Longrightarrow> wf_Store (snd (GetSession s sessionID now1 now2))"
  by (auto simp: wf_Store_def GetSession_def Let_def ran_def less_Suc_eq
           split: option.splits if_splits)

text \<open>
  Claim C8.  For a session id that the store does not hold, \<open>GetSession\<close> allocates a new
  object, a simulated session with that id, the empty token and no viewer, and stores its
  pointer under the id.  A second \<open>GetSession\<close> with the same id returns the same
  pointer: it allocates nothing, leaves the table as it is, and changes nothing in the
  object but the last-accessed time, which becomes the time of the second call.
\<close>

theorem GetSession_fresh_then_same:
  assumes "sessions s sessionID = None"
  shows "(case GetSession s sessionID t1 t2 of (p, s1) \<Rightarrow>
            p = length (heap s)
            \<and> heap s1 = heap s @ [\<lparr>Session.ID = sessionID, Session.Token = [], Username = [],
                                  Session.Viewer = None, Session.CreatedAt = t1,
                                  LastAccessed = t2, Session.IsSimulated = True\<rparr>]
            \<and> sessions s1 = (sessions s)(sessionID \<mapsto> p)
            \<and> (case GetSession s1 sessionID t3 t4 of (q, s2) \<Rightarrow>
                  q = p \<and> sessions s2 = sessions s1 \<and> length (heap s2) = length (heap s1)
                  \<and> heap s2 ! p = (heap s1 ! p)\<lparr>LastAccessed := t3\<rparr>
                  \<and> take p (heap s2) = heap s))"
  using assms by (simp add: GetSession_def Let_def nth_append)

theorem GetSession_fresh_then_same_witness:
  "sessions store0 ''tab-1'' = None
   \<and> (case GetSession store0 ''tab-1'' 10 11 of (p, s1) \<Rightarrow>
            p = length (heap store0)
            \<and> heap s1 = heap store0 @ [\<lparr>Session.ID = ''tab-1'', Session.Token = [],
                                       Username = [], Session.Viewer = None,
                                       Session.CreatedAt = 10, LastAccessed = 11,
                                       Session.IsSimulated = True\<rparr>]
            \<and> sessions s1 = (sessions store0)(''tab-1'' \<mapsto> p)
            \<and> (case GetSession s1 ''tab-1'' 20 21 of (q, s2) \<Rightarrow>
                  q = p \<and> sessions s2 = sessions s1 \<and> length (heap s2) = length (heap s1)
                  \<and> heap s2 ! p = (heap s1 ! p)\<lparr>LastAccessed := 20\<rparr>
                  \<and> take p (heap s2) = heap store0))"
proof -
  have h: "sessions store0 ''tab-1'' = None"
    by (simp add: store0_def)
  from h GetSession_fresh_then_same [OF h, of 10 11 20 21] show ?thesis
    by blast
qed

text \<open>
  Claim C10.  \<open>ToUser\<close> gives the simulated user for a session that is simulated or has
  the empty token, and otherwise a user with the viewer of the session and the fixed token
  \<open>HIDDEN\<close>.  The token of the session does not reach the result: two sessions that
  differ only in their tokens, both non-empty, convert to the same user.
\<close>

theorem ToUser_hides_token:
  "(Session.IsSimulated s \<or> Session.Token s = [] \<longrightarrow>
      ToUser NewSimulatedUser s = NewSimulatedUser)
   \<and> (\<not> Session.IsSimulated s \<and> Session.Token s \<noteq> [] \<longrightarrow>
        ToUser NewSimulatedUser s =
          \<lparr>User.Viewer = Session.Viewer s, User.Token = ''HIDDEN'', User.IsSimulated = False\<rparr>)
   \<and> (tok \<noteq> [] \<and> tok' \<noteq> [] \<longrightarrow>
        ToUser NewSimulatedUser (s\<lparr>Session.Token := tok\<rparr>)
          = ToUser NewSimulatedUser (s\<lparr>Session.Token := tok'\<rparr>))"
  by (simp add: ToUser_def)

theorem ToUser_hides_token_witness:
  "(Session.IsSimulated (alice\<lparr>Session.IsSimulated := True\<rparr>)
      \<or> Session.Token (alice\<lparr>Session.IsSimulated := True\<rparr>) = [])
   \<and> ToUser guest (alice\<lparr>Session.IsSimulated := True\<rparr>) = guest
   \<and> (\<not> Session.IsSimulated alice \<and> Session.Token alice \<noteq> [])
   \<and> ToUser guest alice
       = \<lparr>User.Viewer = Session.Viewer alice, User.Token = ''HIDDEN'', User.IsSimulated = False\<rparr>
   \<and> (''secret-A'' \<noteq> [] \<and> ''secret-B'' \<noteq> [])
   \<and> ToUser guest (alice\<lparr>Session.Token := ''secret-A''\<rparr>)
       = ToUser guest (alice\<lparr>Session.Token := ''secret-B''\<rparr>)"
proof -
  have a: "\<not> Session.IsSimulated alice \<and> Session.Token alice \<noteq> []"
    by (simp add: alice_def)
  have b: "''secret-A'' \<noteq> [] \<and> ''secret-B'' \<noteq> []"
    by simp
  have s: "Session.IsSimulated (alice\<lparr>Session.IsSimulated := True\<rparr>)
             \<or> Session.Token (alice\<lparr>Session.IsSimulated := True\<rparr>) = []"
    by simp
  note T = ToUser_hides_token [of alice guest "''secret-A''" "''secret-B''"]
  note S = ToUser_hides_token [of "alice\<lparr>Session.IsSimulated := True\<rparr>" guest
                                  "''secret-A''" "''secret-B''"]
  from S s have e: "ToUser guest (alice\<lparr>Session.IsSimulated := True\<rparr>) = guest"
    by blast
  from T a have c: "ToUser guest alice
       = \<lparr>User.Viewer = Session.Viewer alice, User.Token = ''HIDDEN'', User.IsSimulated = False\<rparr>"
    by blast
  from T b have d: "ToUser guest (alice\<lparr>Session.Token := ''secret-A''\<rparr>)
       = ToUser guest (alice\<lparr>Session.Token := ''secret-B''\<rparr>)"
    by blast
  from a b s c d e show ?thesis by blast
qed

section \<open>The session-aware progress update\<close>

text \<open>
  Claim C6, as the code has it.  For a session that is stored, not simulated and has a
  token, and whose client is there (cached, or built from the token), the update goes to
  that client.  The status sent is \<open>completed\<close> exactly when the total episode count is
  given and positive and the progress has reached it, and \<open>current\<close> otherwise.  When the
  total is given and positive the progress sent is the smaller of the progress and the
  total, so it does not exceed the total; when the total is absent or not positive the
  progress is sent as it is.
\<close>

theorem UpdateEntryProgressForSession_status_and_clamp:
  assumes "SessionStore a = Some store" and "sessionID \<noteq> []"
    and "sessions store sessionID = Some p"
    and "\<not> Session.IsSimulated (heap store ! p)" and "Session.Token (heap store ! p) \<noteq> []"
    and "(case clients store sessionID of
            Some (Some cached) \<Rightarrow> Some cached
          | _ \<Rightarrow> NewAnilistClient (Session.Token (heap store ! p)) (cacheDir store)) = Some c"
  shows "fst (UpdateEntryProgressForSession NewAnilistClient a now1 now2 sessionID mediaID
                progress totalEpisodes)
         = UpdateMediaListEntryProgress c mediaID
             (case totalEpisodes of
                None \<Rightarrow> progress
              | Some t \<Rightarrow> if 0 < t then min progress t else progress)
             (if \<exists>t. totalEpisodes = Some t \<and> 0 < t \<and> t \<le> progress
              then MediaListStatusCompleted else MediaListStatusCurrent)"
proof -
  let ?store1 = "store\<lparr>heap := (heap store)[p := (heap store ! p)\<lparr>LastAccessed := now1\<rparr>]\<rparr>"
  have client: "fst (GetAnilistClient NewAnilistClient ?store1 sessionID) = Some c"
    using assms(3,4,6)
    by (auto simp: GetAnilistClient_def Let_def touch_keeps_Token touch_keeps_IsSimulated
             split: option.splits)
  obtain store2 where g: "GetAnilistClient NewAnilistClient ?store1 sessionID = (Some c, store2)"
    using client by (cases "GetAnilistClient NewAnilistClient ?store1 sessionID") simp
  show ?thesis
    using assms(1,2,4,5) g
    by (cases totalEpisodes)
       (simp_all add: UpdateEntryProgressForSession_def GetSession_hit [OF assms(3)]
          touch_keeps_Token touch_keeps_IsSimulated Let_def min_def)
qed

theorem UpdateEntryProgressForSession_status_and_clamp_witness:
  "SessionStore app1 = Some store1 \<and> ''s1'' \<noteq> [] \<and> sessions store1 ''s1'' = Some 0
   \<and> \<not> Session.IsSimulated (heap store1 ! 0) \<and> Session.Token (heap store1 ! 0) \<noteq> []
   \<and> mkClient (Session.Token (heap store1 ! 0)) (cacheDir store1) = Some (''secret-A'', ''/cache'')
   \<and> fst (UpdateEntryProgressForSession mkClient app1 10 11 ''s1'' 42 15 (Some 12))
       = UpdateMediaListEntryProgress (''secret-A'', ''/cache'') 42 12 MediaListStatusCompleted"
proof -
  have h1: "SessionStore app1 = Some store1" by (simp add: app1_def)
  have h2: "''s1'' \<noteq> []" by simp
  have h3: "sessions store1 ''s1'' = Some 0" by (simp add: store1_def)
  have h4: "\<not> Session.IsSimulated (heap store1 ! 0)" by (simp add: store1_def alice_def)
  have h5: "Session.Token (heap store1 ! 0) \<noteq> []" by (simp add: store1_def alice_def)
  have h6: "mkClient (Session.Token (heap store1 ! 0)) (cacheDir store1)
              = Some (''secret-A'', ''/cache'')"
    by (simp add: store1_def alice_def mkClient_def)
  have h6': "(case clients store1 ''s1'' of
                Some (Some cached) \<Rightarrow> Some cached
              | _ \<Rightarrow> mkClient (Session.Token (heap store1 ! 0)) (cacheDir store1))
             = Some (''secret-A'', ''/cache'')"
    using h6 by (simp add: store1_def)
  have "fst (UpdateEntryProgressForSession mkClient app1 10 11 ''s1'' 42 15 (Some 12))
          = UpdateMediaListEntryProgress (''secret-A'', ''/cache'') 42 12 MediaListStatusCompleted"
    using UpdateEntryProgressForSession_status_and_clamp
            [where NewAnilistClient = mkClient, OF h1 h2 h3 h4 h5 h6', of 10 11 42 15 "Some 12"]
    by simp
  with h1 h2 h3 h4 h5 h6 show ?thesis by blast
qed

text \<open>
  The sentence of claim C6 that the progress sent never exceeds the total episode count
  does not hold for a total of zero: the progress 5 is sent as it is.
\<close>

theorem UpdateEntryProgressForSession_exceeds_total_counterexample:
  "fst (UpdateEntryProgressForSession mkClient app1 10 11 ''s1'' 42 5 (Some 0))
     = UpdateMediaListEntryProgress (''secret-A'', ''/cache'') 42 5 MediaListStatusCurrent
   \<and> \<not> (5 \<le> (0 :: int))"
  by (simp add: UpdateEntryProgressForSession_def GetSession_def GetAnilistClient_def Let_def
        app1_def store1_def alice_def mkClient_def)

section \<open>Listing the active torrents\<close>

lemma HandleGetActiveTorrentList_calls:
  "snd (HandleGetActiveTorrentList env) =
     (if snd (l_GetActiveTorrents1 env) = None then [Call_GetActiveTorrents]
      else if \<not> l_Start env then [Call_GetActiveTorrents, Call_Start]
      else [Call_GetActiveTorrents, Call_Start, Call_GetActiveTorrents])"
  by (simp add: HandleGetActiveTorrentList_def split: prod.splits option.splits)

lemma HandleGetActiveTorrentList_restart_fails:
  "HandleGetActiveTorrentList
     \<lparr>l_GetActiveTorrents1 = (res1, Some err1), l_Start = False, l_GetActiveTorrents2 = again\<rparr>
   = (RespondWithError (errors_New ''could not start torrent client, verify your settings''),
      [Call_GetActiveTorrents, Call_Start])"
  by (simp add: HandleGetActiveTorrentList_def)

text \<open>
  Claim C3 asks that the error of the retried listing be propagated.  When the first
  listing fails and the daemon starts, the handler lists once more and answers with the
  data of that second listing, whatever its error: the error \<open>err2\<close> is assigned and
  never read.  (One restart and one retry are made, and a failed restart is answered with
  an error, as the two lemmas above say.)
\<close>

theorem HandleGetActiveTorrentList_swallows_retry_error:
  "HandleGetActiveTorrentList
     \<lparr>l_GetActiveTorrents1 = (res1, Some err1), l_Start = True,
      l_GetActiveTorrents2 = (res2, Some err2)\<rparr>
   = (RespondWithData res2, [Call_GetActiveTorrents, Call_Start, Call_GetActiveTorrents])"
  by (simp add: HandleGetActiveTorrentList_def)

section \<open>Probing the files of a torrent\<close>

lemma GetFiles_deferred_listing_succeeds:
  assumes "f_GetAnimeProviderExtension env (files_body.Provider b)"
    and "f_GetTorrentMagnetLink env torrent = (magnet, None)"
    and "f_TorrentExists env (InfoHash torrent) \<or> f_AddMagnets env [magnet] tempDir = None"
    and "f_GetFiles env (InfoHash torrent) = (files, None)"
  shows "fst (GetFiles_deferred env b torrent tempDir) = RespondWithData files"
    and "Call_RemoveTorrents [InfoHash torrent] \<in> set (snd (GetFiles_deferred env b torrent tempDir))
         \<longleftrightarrow> \<not> f_TorrentExists env (InfoHash torrent)"
  using assms by (auto simp: GetFiles_deferred_def Let_def)

lemma GetFiles_deferred_keeps_existing:
  "f_TorrentExists env (InfoHash torrent) \<Longrightarrow>
   Call_RemoveTorrents hashes \<notin> set (snd (GetFiles_deferred env b torrent tempDir))"
  by (auto simp: GetFiles_deferred_def Let_def split: prod.splits option.splits)

text \<open>
  Claim C4 asks that no probe torrent is left behind on any outcome, the failure of the
  listing included.  Here the torrent is not in the daemon, it is added to the temporary
  directory, and the listing fails: the handler answers with the error and returns; the
  only thing it still does is to delete the directory.  \<open>RemoveTorrents\<close> is not called.
\<close>

theorem HandleTorrentClientGetFiles_leaves_probe:
  "HandleTorrentClientGetFiles files_env_listing_fails
     \<lparr>files_body.Torrent = Some torrent_a, files_body.Provider = ''nyaa''\<rparr>
   = (RespondWithError refused,
      [Call_MkdirTemp, Call_GetAnimeProviderExtension ''nyaa'',
       Call_GetTorrentMagnetLink torrent_a, Call_TorrentExists ''aaaa'',
       Call_AddMagnets [''magnet:?xt=urn:btih:aaaa''] ''/tmp/torrent-1'',
       Call_GetFiles ''aaaa'', Call_RemoveAll ''/tmp/torrent-1''])"
  by (simp add: HandleTorrentClientGetFiles_def GetFiles_deferred_def
        files_env_listing_fails_def torrent_a_def Let_def)

section \<open>The download request\<close>

text \<open>
  Claim C1 asks that exactly one of the three branches runs.  A request with smart-select
  enabled and deselect disabled, on collaborators that all succeed: after \<open>SmartSelect\<close>
  (which is told to add the torrent itself) the handler goes on to resolve the magnet and
  to call \<open>AddMagnets\<close>.
\<close>

theorem HandleTorrentClientDownload_smart_select_also_adds:
  "HandleTorrentClientDownload download_env_ok smart_select_body
   = (RespondWithData True,
      [Call_Start, Call_GetAnimeWithRelations 21,
       Call_SmartSelect torrent_a [1, 2] (GetAnimeWithRelations 21) ''/lib/Show'' True,
       Call_GetAnimeProviderExtension ''nyaa'', Call_GetTorrentMagnetLink torrent_a,
       Call_AddMagnets [''magnet:?xt=urn:btih:aaaa''] ''/lib/Show'',
       Call_SaveTorrentPreMatch ''/lib/Show'' 21,
       Call_go_AddMediaToCollection (Some \<lparr>BaseAnime.ID = 21\<rparr>)])"
  by (simp add: HandleTorrentClientDownload_def Download_smart_select_def
        Download_deselect_or_add_def Download_finish_def download_env_ok_def
        smart_select_body_def torrent_a_def IsAbs_def HasPrefix_def Let_def)

text \<open>
  Claim C5, as the code has it.  A smart-select request with more than one torrent never
  gets the success answer, and the handler calls nothing but the start of the daemon and
  the metadata lookup: no add, no selection, no magnet resolution, no pre-match.  When the
  destination is absolute, the daemon starts and the request names a media entry, the
  answer is the error "smart select is not supported for multiple torrents", given after
  those two calls.
\<close>

theorem smart_select_multiple_torrents_rejected:
  assumes "SmartSelect_Enabled b" and "length (Torrents b) > 1"
  shows "(\<forall>data. fst (HandleTorrentClientDownload env b) \<noteq> RespondWithData data)
       \<and> (\<forall>c \<in> set (snd (HandleTorrentClientDownload env b)).
             c = Call_Start \<or> (\<exists>mediaId. c = Call_GetAnimeWithRelations mediaId))
       \<and> (download_body.Destination b \<noteq> [] \<and> IsAbs (download_body.Destination b)
            \<and> d_Start env \<and> Media b = Some media \<longrightarrow>
           HandleTorrentClientDownload env b
             = (RespondWithError
                  (errors_New ''smart select is not supported for multiple torrents''),
                [Call_Start, Call_GetAnimeWithRelations (BaseAnime.ID media)]))"
  using assms
  by (auto simp: HandleTorrentClientDownload_def Download_smart_select_def Let_def
           split: option.splits)

theorem smart_select_multiple_torrents_rejected_witness:
  "SmartSelect_Enabled smart_select_batch_body
   \<and> length (Torrents smart_select_batch_body) > 1
   \<and> download_body.Destination smart_select_batch_body \<noteq> []
   \<and> IsAbs (download_body.Destination smart_select_batch_body)
   \<and> d_Start download_env_ok
   \<and> Media smart_select_batch_body = Some \<lparr>BaseAnime.ID = 21\<rparr>
   \<and> HandleTorrentClientDownload download_env_ok smart_select_batch_body
       = (RespondWithError (errors_New ''smart select is not supported for multiple torrents''),
          [Call_Start, Call_GetAnimeWithRelations 21])"
proof -
  have h1: "SmartSelect_Enabled smart_select_batch_body"
    by (simp add: smart_select_batch_body_def smart_select_body_def)
  have h2: "length (Torrents smart_select_batch_body) > 1"
    by (simp add: smart_select_batch_body_def smart_select_body_def)
  have h3: "download_body.Destination smart_select_batch_body \<noteq> []
            \<and> IsAbs (download_body.Destination smart_select_batch_body)
            \<and> d_Start download_env_ok
            \<and> Media smart_select_batch_body = Some \<lparr>BaseAnime.ID = 21\<rparr>"
    by (simp add: smart_select_batch_body_def smart_select_body_def download_env_ok_def
          IsAbs_def HasPrefix_def)
  from smart_select_multiple_torrents_rejected
         [OF h1 h2, of download_env_ok "\<lparr>BaseAnime.ID = 21\<rparr>"] h3
  have "HandleTorrentClientDownload download_env_ok smart_select_batch_body
       = (RespondWithError (errors_New ''smart select is not supported for multiple torrents''),
          [Call_Start, Call_GetAnimeWithRelations 21])"
    by simp
  with h1 h2 h3 show ?thesis by blast
qed

text \<open>
  The sentence of claim C5 that no daemon start is performed for such a request does not
  hold: the daemon is started before the number of torrents is looked at.
\<close>

theorem smart_select_rejected_after_start_counterexample:
  "fst (HandleTorrentClientDownload download_env_ok smart_select_batch_body)
     = RespondWithError (errors_New ''smart select is not supported for multiple torrents'')
   \<and> Call_Start \<in> set (snd (HandleTorrentClientDownload download_env_ok smart_select_batch_body))"
  by (simp add: HandleTorrentClientDownload_def Download_smart_select_def download_env_ok_def
        smart_select_batch_body_def smart_select_body_def IsAbs_def HasPrefix_def Let_def)

section \<open>The download status of the media\<close>

lemma range_destToMediaId_Some:
  "range_destToMediaId m contentPath keys = Some mediaId \<Longrightarrow>
   \<exists>destPath \<in> set keys. m destPath = Some mediaId \<and> HasPrefix contentPath destPath"
  by (induction keys) (auto simp: HasPrefix_def split: option.splits if_splits)

lemma range_destToMediaId_None:
  "range_destToMediaId m contentPath keys = None \<longleftrightarrow>
   (\<forall>destPath \<in> set keys. destPath \<in> dom m \<longrightarrow> \<not> HasPrefix contentPath destPath)"
  by (induction keys) (auto simp: HasPrefix_def split: option.splits if_splits)

text \<open>
  When every destination that is a prefix of the content path belongs to the same catalog
  id, the inner loop finds that id in whatever order it visits the map.
\<close>

lemma range_destToMediaId_unambiguous:
  assumes "range_order m keys"
    and "m destPath = Some mediaId" and "HasPrefix contentPath destPath"
    and "\<forall>d \<in> dom m. HasPrefix contentPath d \<longrightarrow> m d = Some mediaId"
  shows "range_destToMediaId m contentPath keys = Some mediaId"
proof (cases "range_destToMediaId m contentPath keys")
  case None
  moreover from assms(1,2) have "destPath \<in> set keys" and "destPath \<in> dom m"
    by (auto simp: range_order_def)
  ultimately show ?thesis
    using assms(3) by (simp add: range_destToMediaId_None)
next
  case (Some found)
  then obtain d where "m d = Some found" and "HasPrefix contentPath d"
    using range_destToMediaId_Some by blast
  with assms(4) have "found = mediaId" by force
  with Some show ?thesis by simp
qed
















section \<open>The pre-match table\<close>

text \<open>What the scan decides by: \<open>strings.HasPrefix\<close> on the normalized strings.\<close>

lemma GetTorrentPreMatchForFilePath_loop_True:
  "GetTorrentPreMatchForFilePath_loop filePath rows = (mediaId, True) \<Longrightarrow>
   \<exists>pm \<in> set rows. TorrentPreMatch.MediaId pm = mediaId
      \<and> HasPrefix filePath (NormalizePath (TorrentPreMatch.Destination pm))"
  by (induction rows) (auto simp: Let_def split: if_splits)

lemma GetTorrentPreMatchForFilePath_loop_False:
  "snd (GetTorrentPreMatchForFilePath_loop filePath rows) = False \<longleftrightarrow>
   (\<forall>pm \<in> set rows. \<not> HasPrefix filePath (NormalizePath (TorrentPreMatch.Destination pm)))"
  by (induction rows) (auto simp: Let_def split: if_splits)

text \<open>The example of the specification: one destination, a file below it and a file elsewhere.\<close>

lemma GetTorrentPreMatchForFilePath_after_save:
  "GetTorrentPreMatchForFilePath
     (SaveTorrentPreMatch (SaveTorrentPreMatch [] 0 ''/lib/Show'' 42) 1 ''/lib/Show'' 99, None)
     ''/lib/Show/ep01.mkv'' = (99, True)"
  "GetTorrentPreMatchForFilePath
     (SaveTorrentPreMatch (SaveTorrentPreMatch [] 0 ''/lib/Show'' 42) 1 ''/lib/Show'' 99, None)
     ''/lib/Other/ep01.mkv'' = (0, False)"
  by code_simp+

text \<open>
  Claim C2 asks that a destination matches only the paths below it, segment by segment.
  The table holds the one destination \<open>/library/Foo\<close>, saved for the catalog id 7; the
  file \<open>/library/Foo2/ep01.mkv\<close> of the sibling directory gets the id 7, though the
  destination is not a prefix of its path that ends at a segment boundary.
\<close>

theorem GetTorrentPreMatchForFilePath_matches_sibling:
  "GetTorrentPreMatchForFilePath (SaveTorrentPreMatch [] 0 ''/library/Foo'' 7, None)
     ''/library/Foo2/ep01.mkv'' = (7, True)
   \<and> \<not> segment_prefix (NormalizePath ''/library/Foo'') (NormalizePath ''/library/Foo2/ep01.mkv'')"
  by code_simp

lemma decimal_digits: "\<forall>c \<in> set (decimal n). 48 \<le> (of_char c :: nat) \<and> (of_char c :: nat) \<le> 57"
proof (induction n rule: decimal.induct)
  case (1 n)
  show ?case
  proof (cases "n < 10")
    case True
    then show ?thesis by (subst decimal.simps) simp
  next
    case False
    have "n mod 10 < 10" by simp
    then have "(48 + n mod 10) mod 256 = 48 + n mod 10" by simp
    with False 1 show ?thesis
      by (subst decimal.simps) (simp del: mod_less)
  qed
qed

lemma decimal_nonempty: "decimal n \<noteq> []"
  by (subst decimal.simps) simp

lemma decimal_length_1: "length (decimal n) = 1 \<longleftrightarrow> n < 10"
proof (cases "n < 10")
  case True
  then show ?thesis by (subst decimal.simps) simp
next
  case False
  with decimal_nonempty [of "n div 10"] show ?thesis by (subst decimal.simps) simp
qed

lemma of_char_of_nat_int: "0 \<le> k \<Longrightarrow> k < 256 \<Longrightarrow> (of_char (char_of (k :: int)) :: nat) = nat k"
proof -
  assume a: "0 \<le> k" "k < 256"
  have "(of_char (char_of k) :: int) = k mod 256" by (rule of_char_of)
  with a have "(of_char (char_of k) :: int) = k" by simp
  then have "nat (of_char (char_of k) :: int) = nat k" by simp
  moreover have "nat (of_char (char_of k) :: int) = (of_char (char_of k) :: nat)"
    by (metis nat_int of_char_of of_nat_of_char)
  ultimately show ?thesis by simp
qed

lemma string_of_rune_head:
  assumes "string_of_rune r = c # cs" and "(of_char c :: nat) \<le> 57"
  shows "0 \<le> r \<and> r < 0x80 \<and> cs = [] \<and> c = char_of r"
proof -
  consider (bad) "r < 0 \<or> r > 0x10FFFF \<or> (0xD800 \<le> r \<and> r \<le> 0xDFFF)"
    | (one) "0 \<le> r" "r < 0x80"
    | (two) "0x80 \<le> r" "r < 0x800"
    | (three) "0x800 \<le> r" "r < 0x10000" "\<not> (0xD800 \<le> r \<and> r \<le> 0xDFFF)"
    | (four) "0x10000 \<le> r" "r \<le> 0x10FFFF"
    by linarith
  then show ?thesis
  proof cases
    case bad
    with assms(1) have "c = char_of (0xEF :: int)" by (auto simp: string_of_rune_def)
    then have "(of_char c :: nat) = 239" by (simp add: of_char_of_nat_int)
    with assms(2) show ?thesis by simp
  next
    case one
    with assms(1) show ?thesis by (auto simp: string_of_rune_def)
  next
    case two
    with assms(1) have c: "c = char_of (0xC0 + r div 64)" by (auto simp: string_of_rune_def)
    from two have "0 \<le> r div 64" "r div 64 < 32" by simp_all
    then have "(of_char c :: nat) = nat (0xC0 + r div 64)" unfolding c by (intro of_char_of_nat_int) simp_all
    with assms(2) \<open>0 \<le> r div 64\<close> show ?thesis by simp
  next
    case three
    with assms(1) have c: "c = char_of (0xE0 + r div 4096)" by (auto simp: string_of_rune_def)
    from three have "0 \<le> r div 4096" "r div 4096 < 16" by simp_all
    then have "(of_char c :: nat) = nat (0xE0 + r div 4096)" unfolding c by (intro of_char_of_nat_int) simp_all
    with assms(2) \<open>0 \<le> r div 4096\<close> show ?thesis by simp
  next
    case four
    with assms(1) have c: "c = char_of (0xF0 + r div 262144)" by (auto simp: string_of_rune_def)
    from four have "0 \<le> r div 262144" "r div 262144 < 5" by simp_all
    then have "(of_char c :: nat) = nat (0xF0 + r div 262144)" unfolding c by (intro of_char_of_nat_int) simp_all
    with assms(2) \<open>0 \<le> r div 262144\<close> show ?thesis by simp
  qed
qed

lemma CleanupOldTorrentPreMatches_never_decimal:
  "CleanupOldTorrentPreMatches (int n) \<noteq> ''-'' @ decimal n @ '' days''"
proof
  assume "CleanupOldTorrentPreMatches (int n) = ''-'' @ decimal n @ '' days''"
  then have eq: "string_of_rune (rune (int n)) = decimal n"
    by (simp add: CleanupOldTorrentPreMatches_def)
  obtain c cs where d: "decimal n = c # cs"
    using decimal_nonempty [of n] by (cases "decimal n") auto
  with decimal_digits [of n] have c: "48 \<le> (of_char c :: nat)" "(of_char c :: nat) \<le> 57" by auto
  from string_of_rune_head [OF eq [unfolded d] c(2)]
  have r: "0 \<le> rune (int n)" "rune (int n) < 0x80" "cs = []" "c = char_of (rune (int n))" by auto
  from d r(3) have "length (decimal n) = 1" by simp
  with decimal_length_1 [of n] have n: "n < 10" by simp
  then have "rune (int n) = int n" by (simp add: rune_def)
  with r(4) have "(of_char c :: nat) = n" using n by (simp add: of_char_of_nat_int)
  with c(1) n show False by simp
qed

text \<open>
  Claim C9 asks that the age passed to the store be the decimal representation of the
  number of days.  For 7 days the code passes a minus sign, the byte 07 and \<open>" days"\<close>:
  \<open>string(rune(days))\<close> is the character with the code point \<open>days\<close>, not its decimal
  digits.  By the lemma above this is so for every number of days.
\<close>

theorem CleanupOldTorrentPreMatches_not_decimal:
  "CleanupOldTorrentPreMatches 7 = [CHR ''-'', CHR 0x07, CHR '' '', CHR ''d'', CHR ''a'', CHR ''y'', CHR ''s'']
   \<and> ''-'' @ decimal 7 @ '' days'' = ''-7 days''
   \<and> CleanupOldTorrentPreMatches 7 \<noteq> ''-'' @ decimal 7 @ '' days''"
  by code_simp

end
